theory Spec2Isabelle
  imports Main "HOL-Library.AList"
begin

section \<open>Values, dictionaries and text\<close>

text \<open>
  The orchestrator of \<^verbatim>\<open>claude_swarm/swarm.py\<close> and the patterns of
  \<^verbatim>\<open>claude_swarm/patterns.py\<close> pass JSON-like Python values around: what
  \<^verbatim>\<open>json.loads\<close> returns and \<^verbatim>\<open>json.dumps\<close> accepts. A Python \<^verbatim>\<open>dict\<close> keeps its
  keys in insertion order, so an object is an association list; the operations below keep the
  keys distinct. Floating-point numbers are left out of the value type. Text is a
  \<^typ>\<open>string\<close>, one \<^typ>\<open>char\<close> per code point below 256.
\<close>

datatype json =
    JNull
  | JBool bool
  | JInt int
  | JStr string
  | JList "json list"
  | JObj "(string \<times> json) list"

type_synonym pydict = "(string \<times> json) list"

text \<open>\<^verbatim>\<open>d.get(k)\<close>, \<^verbatim>\<open>k in d\<close>, \<^verbatim>\<open>d[k] = v\<close> and \<^verbatim>\<open>del d[k]\<close>.\<close>

definition dict_get :: "(string \<times> 'v) list \<Rightarrow> string \<Rightarrow> 'v option" where
  "dict_get d k = map_of d k"

definition dict_has :: "(string \<times> 'v) list \<Rightarrow> string \<Rightarrow> bool" where
  "dict_has d k = (dict_get d k \<noteq> None)"

definition dict_set :: "(string \<times> 'v) list \<Rightarrow> string \<Rightarrow> 'v \<Rightarrow> (string \<times> 'v) list" where
  "dict_set d k v = AList.update k v d"

definition dict_del :: "(string \<times> 'v) list \<Rightarrow> string \<Rightarrow> (string \<times> 'v) list" where
  "dict_del d k = AList.delete k d"

text \<open>
  A dictionary display \<^verbatim>\<open>{k1: v1, ..., **r}\<close> and a dictionary comprehension insert their
  entries from left to right into an empty dictionary: a later entry overwrites the value of
  an earlier one with the same key and keeps its position.
\<close>

definition dict_of :: "(string \<times> 'v) list \<Rightarrow> (string \<times> 'v) list" where
  "dict_of kvs = foldl (\<lambda>d kv. dict_set d (fst kv) (snd kv)) [] kvs"

text \<open>Python's \<^verbatim>\<open>xs[-n:]\<close> for a positive \<open>n\<close>: the last \<open>n\<close> elements, all of a shorter list.\<close>

definition last_n :: "nat \<Rightarrow> 'a list \<Rightarrow> 'a list" where
  "last_n n xs = (if length xs \<le> n then xs else drop (length xs - n) xs)"

text \<open>\<^verbatim>\<open>sep.join(parts)\<close>.\<close>

fun join :: "string \<Rightarrow> string list \<Rightarrow> string" where
  "join sep [] = []"
| "join sep [x] = x"
| "join sep (x # y # ys) = x @ sep @ join sep (y # ys)"

text \<open>\<^verbatim>\<open>s.strip()\<close>: Python's white space among the code points below 256.\<close>

definition is_space :: "char \<Rightarrow> bool" where
  "is_space c = (c \<in> set [CHR 0x09, CHR 0x0A, CHR 0x0B, CHR 0x0C, CHR 0x0D,
                           CHR 0x1C, CHR 0x1D, CHR 0x1E, CHR 0x1F, CHR 0x20,
                           CHR 0x85, CHR 0xA0])"

definition strip :: "string \<Rightarrow> string" where
  "strip s = rev (dropWhile is_space (rev (dropWhile is_space s)))"

text \<open>
  The \<^verbatim>\<open>json\<close> module of the Python library is not part of the repository; the model takes
  its two functions as parameters: \<open>dumps\<close> stands for \<^verbatim>\<open>json.dumps(v, indent=2)\<close> on a
  JSON-like value, \<open>loads\<close> for \<^verbatim>\<open>json.loads(text)\<close>, with \<open>None\<close> for
  \<^verbatim>\<open>JSONDecodeError\<close>.
\<close>

record json_codec =
  dumps :: "json \<Rightarrow> string"
  loads :: "string \<Rightarrow> json option"

datatype py_error = TypeError | AttributeError | KeyError | JSONDecodeError

section \<open>Agents and the swarm state\<close>

record agent =
  name :: string
  role :: string
  system_prompt :: string
  memory :: "json list"
  allowed_tools :: "string list option"

record swarm_state =
  agents :: "(string \<times> agent) list"
  shared_context :: pydict
  history :: "json list"


text \<open>
  A \<^verbatim>\<open>Swarm\<close>: its state and its settings. \<open>cwd\<close> is the resolved working directory. The
  semaphore built from \<open>max_concurrent\<close> delays the start of a process and changes no value;
  it has no field here.
\<close>

record swarm =
  state :: swarm_state
  max_concurrent :: int
  cwd :: string
  output_format :: string


definition add_agent ::
  "swarm \<Rightarrow> string \<Rightarrow> string \<Rightarrow> string \<Rightarrow> string list option \<Rightarrow> agent \<times> swarm" where
  "add_agent sw nm rl sp tools =
     (let a = \<lparr>name = nm, role = rl, system_prompt = sp, memory = [], allowed_tools = tools\<rparr>
      in (a, sw\<lparr>state := (state sw)\<lparr>agents := dict_set (agents (state sw)) nm a\<rparr>\<rparr>))"

definition remove_agent :: "swarm \<Rightarrow> string \<Rightarrow> bool \<times> swarm" where
  "remove_agent sw nm =
     (if dict_has (agents (state sw)) nm
      then (True, sw\<lparr>state := (state sw)\<lparr>agents := dict_del (agents (state sw)) nm\<rparr>\<rparr>)
      else (False, sw))"

definition update_context :: "swarm \<Rightarrow> string \<Rightarrow> json \<Rightarrow> swarm" where
  "update_context sw k v =
     sw\<lparr>state := (state sw)\<lparr>shared_context := dict_set (shared_context (state sw)) k v\<rparr>\<rparr>"

definition clear_context :: "swarm \<Rightarrow> swarm" where
  "clear_context sw = sw\<lparr>state := (state sw)\<lparr>shared_context := []\<rparr>\<rparr>"

subsection \<open>Prompt assembly\<close>

text \<open>
  \<^verbatim>\<open>Swarm._build_prompt\<close>: the parts are appended one after the other and joined by
  \<^verbatim>\<open>"\n\n"\<close>. An empty string, dictionary or list is false in a Python condition.
\<close>

definition build_prompt :: "json_codec \<Rightarrow> swarm \<Rightarrow> agent \<Rightarrow> string \<Rightarrow> string" where
  "build_prompt lib sw a task =
     (let parts0 = [];
          parts1 = (if role a \<noteq> []
                    then parts0 @ [''You are '' @ name a @ '', a '' @ role a @ ''.'']
                    else parts0);
          parts2 = (if system_prompt a \<noteq> [] then parts1 @ [system_prompt a] else parts1);
          parts3 = (if shared_context (state sw) \<noteq> []
                    then parts2 @ [''\<newline>## Shared Context\<newline>''
                                   @ dumps lib (JObj (shared_context (state sw)))]
                    else parts2);
          parts4 = (if memory a \<noteq> []
                    then (let recent = last_n 5 (memory a)
                          in parts3 @ [''\<newline>## Your Recent Memory\<newline>''
                                       @ dumps lib (JList recent)])
                    else parts3);
          parts5 = parts4 @ [''\<newline>## Task\<newline>'' @ task]
      in join ''\<newline>\<newline>'' parts5)"


section \<open>The process invoker\<close>

text \<open>
  What the outside world contributes to one invocation: \<open>run_process argv dir\<close> is the
  outcome of the process spawned with the argument vector \<open>argv\<close> in the directory \<open>dir\<close>
  (its exit code and the decoded text of its two output streams, once it has ended), and
  \<open>clock k\<close> is what the \<open>k\<close>-th call of \<^verbatim>\<open>datetime.now().isoformat()\<close> returns. The
  model describes the runs in which every process is admitted by the semaphore, ends, and
  prints text that decodes.
\<close>

record proc_outcome =
  returncode :: int
  stdout :: string
  stderr :: string

record process_env =
  run_process :: "string list \<Rightarrow> string \<Rightarrow> proc_outcome"
  clock :: "nat \<Rightarrow> string"

definition claude_argv :: "swarm \<Rightarrow> string \<Rightarrow> string list option \<Rightarrow> string list" where
  "claude_argv sw prompt tools =
     (let cmd = [''claude'', ''-p'', prompt, ''--output-format'', output_format sw]
      in case tools of
           None \<Rightarrow> cmd
         | Some [] \<Rightarrow> cmd
         | Some (t # ts) \<Rightarrow> cmd @ [''--allowedTools'', join '','' (t # ts)])"

definition invoke_claude ::
  "json_codec \<Rightarrow> process_env \<Rightarrow> swarm \<Rightarrow> string \<Rightarrow> string list option \<Rightarrow> pydict" where
  "invoke_claude lib env sw prompt tools =
     (let out = run_process env (claude_argv sw prompt tools) (cwd sw)
      in if returncode out \<noteq> 0
         then [(''success'', JBool False),
               (''error'', JStr (strip (stderr out))),
               (''returncode'', JInt (returncode out))]
         else (case loads lib (stdout out) of
                 Some v \<Rightarrow> [(''success'', JBool True), (''result'', v)]
               | None \<Rightarrow> [(''success'', JBool True), (''result'', JStr (strip (stdout out)))]))"

section \<open>Invoking agents\<close>

text \<open>\<^verbatim>\<open>d[k]\<close>, \<^verbatim>\<open>d.get(k, default)\<close> and the truth value of a Python object.\<close>

definition subscript :: "pydict \<Rightarrow> string \<Rightarrow> py_error + json" where
  "subscript d k = (case dict_get d k of Some v \<Rightarrow> Inr v | None \<Rightarrow> Inl KeyError)"

definition get_or :: "pydict \<Rightarrow> string \<Rightarrow> json \<Rightarrow> json" where
  "get_or d k dflt = (case dict_get d k of Some v \<Rightarrow> v | None \<Rightarrow> dflt)"

fun truthy :: "json \<Rightarrow> bool" where
  "truthy JNull = False"
| "truthy (JBool b) = b"
| "truthy (JInt i) = (i \<noteq> 0)"
| "truthy (JStr s) = (s \<noteq> [])"
| "truthy (JList xs) = (xs \<noteq> [])"
| "truthy (JObj d) = (d \<noteq> [])"

definition not_found :: "string \<Rightarrow> pydict" where
  "not_found agent_name =
     [(''success'', JBool False),
      (''error'', JStr (''Agent '' @ [CHR 0x27] @ agent_name @ [CHR 0x27] @ '' not found''))]"

text \<open>
  \<^verbatim>\<open>Swarm.invoke\<close> is a coroutine with one suspension, at \<^verbatim>\<open>await self._invoke_claude\<close>.
  \<open>invoke_await\<close> is the part up to and including the awaited call: \<open>None\<close> when the
  coroutine has returned the "not found" result at once, otherwise the dictionary the
  process invoker returned. \<open>invoke_resume\<close> is the part after it, run on the state as it is
  when the coroutine resumes; the agent it appends to is the one registered under the name,
  since nothing here replaces or removes an agent while a coroutine is suspended.
\<close>

definition invoke_await ::
  "json_codec \<Rightarrow> process_env \<Rightarrow> swarm \<Rightarrow> string \<Rightarrow> string \<Rightarrow> pydict option" where
  "invoke_await lib env sw agent_name task =
     (case dict_get (agents (state sw)) agent_name of
        None \<Rightarrow> None
      | Some a \<Rightarrow>
          (let prompt = build_prompt lib sw a task
           in Some (invoke_claude lib env sw prompt (allowed_tools a))))"

definition invoke_resume ::
  "process_env \<Rightarrow> string \<Rightarrow> string \<Rightarrow> pydict option \<Rightarrow> swarm \<Rightarrow> py_error + pydict \<times> swarm" where
  "invoke_resume env agent_name task awaited sw =
     (case awaited of
        None \<Rightarrow> Inr (not_found agent_name, sw)
      | Some result \<Rightarrow>
          (case subscript result ''success'' of
             Inl e \<Rightarrow> Inl e
           | Inr ok \<Rightarrow>
               (let entry = JObj [(''timestamp'', JStr (clock env 0)),
                                  (''task'', JStr task),
                                  (''result'', if truthy ok then get_or result ''result'' JNull
                                               else get_or result ''error'' JNull),
                                  (''success'', ok)];
                    st1 = (state sw)\<lparr>agents :=
                            AList.map_entry agent_name (\<lambda>a. a\<lparr>memory := memory a @ [entry]\<rparr>)
                              (agents (state sw))\<rparr>;
                    st2 = st1\<lparr>history := history st1 @
                            [JObj [(''timestamp'', JStr (clock env 1)),
                                   (''agent'', JStr agent_name),
                                   (''task'', JStr task),
                                   (''result'', JObj result)] ]\<rparr>
                in Inr (dict_of ((''agent'', JStr agent_name) # result), sw\<lparr>state := st2\<rparr>))))"

definition invoke ::
  "json_codec \<Rightarrow> process_env \<Rightarrow> swarm \<Rightarrow> string \<Rightarrow> string \<Rightarrow> py_error + pydict \<times> swarm" where
  "invoke lib env sw agent_name task =
     invoke_resume env agent_name task (invoke_await lib env sw agent_name task) sw"

text \<open>
  \<^verbatim>\<open>asyncio.gather\<close>: every coroutine has run up to its suspension when the first of them
  resumes; they resume one at a time, in the order \<open>order\<close> in which their processes end (a
  list of their positions; a position that names no coroutine is skipped); the first
  exception raised is the outcome of the whole; the results are handed back in the order
  of the arguments.
\<close>

fun resume_all ::
  "('s \<Rightarrow> py_error + 'r \<times> 's) list \<Rightarrow> nat list \<Rightarrow> 's \<Rightarrow> py_error + (nat \<times> 'r) list \<times> 's" where
  "resume_all ks [] s = Inr ([], s)"
| "resume_all ks (i # rest) s =
     (if i < length ks
      then (case (ks ! i) s of
              Inl e \<Rightarrow> Inl e
            | Inr (r, s1) \<Rightarrow>
                (case resume_all ks rest s1 of
                   Inl e \<Rightarrow> Inl e
                 | Inr (rs, s2) \<Rightarrow> Inr ((i, r) # rs, s2)))
      else resume_all ks rest s)"

definition gather ::
  "('s \<Rightarrow> py_error + 'r \<times> 's) list \<Rightarrow> nat list \<Rightarrow> 's \<Rightarrow> py_error + 'r list \<times> 's" where
  "gather ks order s =
     (case resume_all ks order s of
        Inl e \<Rightarrow> Inl e
      | Inr (finished, s') \<Rightarrow> Inr (map snd (sort_key fst finished), s'))"


definition dispatch ::
  "json_codec \<Rightarrow> (nat \<Rightarrow> process_env) \<Rightarrow> nat list \<Rightarrow> swarm \<Rightarrow> (string \<times> string) list
     \<Rightarrow> py_error + json list \<times> swarm" where
  "dispatch lib envs order sw assignments =
     (let tasks = map (\<lambda>(i, agent_name, task).
                         invoke_resume (envs i) agent_name task
                           (invoke_await lib (envs i) sw agent_name task))
                      (enumerate 0 assignments)
      in case gather tasks order sw of
           Inl e \<Rightarrow> Inl e
         | Inr (results, sw') \<Rightarrow> Inr (map JObj results, sw'))"

definition broadcast ::
  "json_codec \<Rightarrow> (nat \<Rightarrow> process_env) \<Rightarrow> nat list \<Rightarrow> swarm \<Rightarrow> string
     \<Rightarrow> py_error + json list \<times> swarm" where
  "broadcast lib envs order sw task =
     dispatch lib envs order sw (dict_of (map (\<lambda>(nm, a). (nm, task)) (agents (state sw))))"


section \<open>Orchestration patterns\<close>


text \<open>\<^verbatim>\<open>str(n)\<close> of an integer, as an f-string renders it.\<close>

fun str_nat :: "nat \<Rightarrow> string" where
  "str_nat n =
     (if n < 10 then [''0123456789'' ! n]
      else str_nat (n div 10) @ [''0123456789'' ! (n mod 10)])"

definition str_int :: "int \<Rightarrow> string" where
  "str_int i = (if i < 0 then ''-'' @ str_nat (nat (- i)) else str_nat (nat i))"

subsection \<open>Fan-out\<close>





subsection \<open>Pipeline\<close>




subsection \<open>Hierarchical\<close>









section \<open>Persistence\<close>











section \<open>Auxiliary facts\<close>

lemma join_snoc: "join sep (xs @ [x]) = (if xs = [] then x else join sep xs @ sep @ x)"
  by (induction sep xs rule: join.induct) auto

lemma length_last_n: "length (last_n n xs) = min n (length xs)"
  by (simp add: last_n_def)

lemma last_n_suffix: "\<exists>older. xs = older @ last_n n xs"
proof
  show "xs = take (length xs - n) xs @ last_n n xs"
    by (simp add: last_n_def)
qed











section \<open>Prompt assembly\<close>

text \<open>
  Claim C1. For every agent and task the prompt is the concatenation, joined by blank lines
  and in this order, of the identity line (when the role is not empty), the system prompt
  (when not empty), the Shared Context block (when the shared context is not empty), the
  memory block (when the memory is not empty) and the Task block. The memory block holds
  the last five memory entries (all of them when there are fewer), in the order in which
  they were recorded, and the Task block ends the prompt, after everything else.
\<close>

theorem build_prompt_layout:
  "build_prompt lib sw a task =
     join ''\<newline>\<newline>''
       ((if role a = [] then [] else [''You are '' @ name a @ '', a '' @ role a @ ''.'']) @
        (if system_prompt a = [] then [] else [system_prompt a]) @
        (if shared_context (state sw) = [] then []
         else [''\<newline>## Shared Context\<newline>''
               @ dumps lib (JObj (shared_context (state sw)))]) @
        (if memory a = [] then []
         else [''\<newline>## Your Recent Memory\<newline>''
               @ dumps lib (JList (last_n 5 (memory a)))]) @
        [''\<newline>## Task\<newline>'' @ task])
   \<and> length (last_n 5 (memory a)) = min 5 (length (memory a))
   \<and> (\<exists>older. memory a = older @ last_n 5 (memory a))
   \<and> (\<exists>front. build_prompt lib sw a task = front @ ''\<newline>## Task\<newline>'' @ task)"
proof (intro conjI)
  show "build_prompt lib sw a task =
     join ''\<newline>\<newline>''
       ((if role a = [] then [] else [''You are '' @ name a @ '', a '' @ role a @ ''.'']) @
        (if system_prompt a = [] then [] else [system_prompt a]) @
        (if shared_context (state sw) = [] then []
         else [''\<newline>## Shared Context\<newline>''
               @ dumps lib (JObj (shared_context (state sw)))]) @
        (if memory a = [] then []
         else [''\<newline>## Your Recent Memory\<newline>''
               @ dumps lib (JList (last_n 5 (memory a)))]) @
        [''\<newline>## Task\<newline>'' @ task])"
    by (simp add: build_prompt_def Let_def)
  show "length (last_n 5 (memory a)) = min 5 (length (memory a))"
    by (rule length_last_n)
  show "\<exists>older. memory a = older @ last_n 5 (memory a)"
    by (rule last_n_suffix)
  show "\<exists>front. build_prompt lib sw a task = front @ ''\<newline>## Task\<newline>'' @ task"
    unfolding build_prompt_def Let_def join_snoc
    by (simp del: append_assoc add: append_assoc[symmetric])
qed

text \<open>
  An agent with six memory entries and one context entry: the prompt carries the entries
  2 to 6. The stand-in for \<^verbatim>\<open>json.dumps\<close> prints the integers of a list and nothing else.
\<close>

theorem build_prompt_layout_witness:
  "build_prompt
     \<lparr>dumps = (\<lambda>v. case v of JList xs \<Rightarrow> concat (map (\<lambda>x. case x of JInt i \<Rightarrow> str_int i | _ \<Rightarrow> ''?'') xs)
                    | _ \<Rightarrow> ''{}''),
      loads = (\<lambda>t. None)\<rparr>
     \<lparr>state = \<lparr>agents = [], shared_context = [(''target'', JStr ''auth.py'')], history = []\<rparr>,
      max_concurrent = 5, cwd = ''.'', output_format = ''json''\<rparr>
     \<lparr>name = ''security'', role = ''security engineer'', system_prompt = ''Be brief.'',
      memory = [JInt 1, JInt 2, JInt 3, JInt 4, JInt 5, JInt 6], allowed_tools = None\<rparr>
     ''scan auth.py''
   = ''You are security, a security engineer.''
     @ ''\<newline>\<newline>Be brief.''
     @ ''\<newline>\<newline>\<newline>## Shared Context\<newline>{}''
     @ ''\<newline>\<newline>\<newline>## Your Recent Memory\<newline>23456''
     @ ''\<newline>\<newline>\<newline>## Task\<newline>scan auth.py''"
  using build_prompt_layout
    [of "\<lparr>dumps = (\<lambda>v. case v of JList xs \<Rightarrow> concat (map (\<lambda>x. case x of JInt i \<Rightarrow> str_int i | _ \<Rightarrow> ''?'') xs)
                    | _ \<Rightarrow> ''{}''),
      loads = (\<lambda>t. None)\<rparr>"
        "\<lparr>state = \<lparr>agents = [], shared_context = [(''target'', JStr ''auth.py'')], history = []\<rparr>,
      max_concurrent = 5, cwd = ''.'', output_format = ''json''\<rparr>"
        "\<lparr>name = ''security'', role = ''security engineer'', system_prompt = ''Be brief.'',
      memory = [JInt 1, JInt 2, JInt 3, JInt 4, JInt 5, JInt 6], allowed_tools = None\<rparr>"
        "''scan auth.py''"]
  by (simp add: last_n_def str_int_def)


section \<open>The agent registry\<close>

text \<open>
  Claim C10. For every name already present in the registry, \<^verbatim>\<open>add_agent\<close> with that name
  replaces the registered agent by a newly built one whose memory is empty, whatever the
  memory of the replaced agent was; the other agents and the order of the names stay.
\<close>

theorem add_agent_replaces:
  assumes "dict_get (agents (state sw)) nm = Some old"
  shows "add_agent sw nm rl sp tools =
           (\<lparr>name = nm, role = rl, system_prompt = sp, memory = [], allowed_tools = tools\<rparr>,
            snd (add_agent sw nm rl sp tools))
       \<and> dict_get (agents (state (snd (add_agent sw nm rl sp tools)))) nm =
           Some \<lparr>name = nm, role = rl, system_prompt = sp, memory = [], allowed_tools = tools\<rparr>
       \<and> (\<forall>k. k \<noteq> nm \<longrightarrow>
             dict_get (agents (state (snd (add_agent sw nm rl sp tools)))) k =
             dict_get (agents (state sw)) k)
       \<and> map fst (agents (state (snd (add_agent sw nm rl sp tools)))) =
           map fst (agents (state sw))"
proof -
  have "nm \<in> fst ` set (agents (state sw))"
    using assms by (auto simp: dict_get_def dest: map_of_SomeD intro: rev_image_eqI)
  then have "map fst (AList.update nm v (agents (state sw))) = map fst (agents (state sw))" for v
    by (simp add: update_keys)
  then show ?thesis
    by (simp add: add_agent_def Let_def dict_set_def dict_get_def update_conv')
qed

theorem add_agent_replaces_witness:
  "dict_get (agents (state
     \<lparr>state = \<lparr>agents = [(''a'', \<lparr>name = ''a'', role = ''r'', system_prompt = [],
                                 memory = [JInt 1, JInt 2], allowed_tools = None\<rparr>)],
               shared_context = [], history = []\<rparr>,
      max_concurrent = 5, cwd = ''.'', output_format = ''json''\<rparr>)) ''a''
     = Some \<lparr>name = ''a'', role = ''r'', system_prompt = [], memory = [JInt 1, JInt 2],
             allowed_tools = None\<rparr>
   \<and> dict_get (agents (state (snd (add_agent
     \<lparr>state = \<lparr>agents = [(''a'', \<lparr>name = ''a'', role = ''r'', system_prompt = [],
                                 memory = [JInt 1, JInt 2], allowed_tools = None\<rparr>)],
               shared_context = [], history = []\<rparr>,
      max_concurrent = 5, cwd = ''.'', output_format = ''json''\<rparr> ''a'' ''r2'' ''p'' None)))) ''a''
     = Some \<lparr>name = ''a'', role = ''r2'', system_prompt = ''p'', memory = [],
             allowed_tools = None\<rparr>"
proof -
  have h: "dict_get (agents (state
     \<lparr>state = \<lparr>agents = [(''a'', \<lparr>name = ''a'', role = ''r'', system_prompt = [],
                                 memory = [JInt 1, JInt 2], allowed_tools = None\<rparr>)],
               shared_context = [], history = []\<rparr>,
      max_concurrent = 5, cwd = ''.'', output_format = ''json''\<rparr>)) ''a''
     = Some \<lparr>name = ''a'', role = ''r'', system_prompt = [], memory = [JInt 1, JInt 2],
             allowed_tools = None\<rparr>"
    by (simp add: dict_get_def)
  show ?thesis
    using h add_agent_replaces [OF h, of "''r2''" "''p''" None] by simp
qed

section \<open>The process invoker\<close>





section \<open>Invoking one agent\<close>




text \<open>
  Claim C9. For every name that is not registered, \<^verbatim>\<open>invoke\<close> returns the "not found"
  failure and the orchestrator it returns is the one it was given: nothing is appended to
  the history, no memory changes, the shared context and the registry are as they were.
\<close>

theorem invoke_unregistered_no_effect:
  assumes "\<not> dict_has (agents (state sw)) nm"
  shows "\<exists>r sw'. invoke lib env sw nm task = Inr (r, sw')
           \<and> r = not_found nm
           \<and> dict_get r ''success'' = Some (JBool False)
           \<and> sw' = sw
           \<and> history (state sw') = history (state sw)
           \<and> agents (state sw') = agents (state sw)
           \<and> shared_context (state sw') = shared_context (state sw)"
  using assms
  by (simp add: invoke_def invoke_await_def invoke_resume_def dict_has_def not_found_def
      dict_get_def)

theorem invoke_unregistered_no_effect_witness:
  "\<not> dict_has (agents (state
      \<lparr>state = \<lparr>agents = [(''sec'', \<lparr>name = ''sec'', role = ''engineer'', system_prompt = [],
                    memory = [JInt 1], allowed_tools = None\<rparr>)],
                shared_context = [(''k'', JInt 2)], history = [JInt 3]\<rparr>,
       max_concurrent = 5, cwd = ''.'', output_format = ''json''\<rparr>)) ''ghost''
   \<and> invoke \<lparr>dumps = (\<lambda>v. []), loads = (\<lambda>t. None)\<rparr>
        \<lparr>run_process = (\<lambda>argv dir. \<lparr>returncode = 0, stdout = [], stderr = []\<rparr>),
         clock = (\<lambda>k. [])\<rparr>
      \<lparr>state = \<lparr>agents = [(''sec'', \<lparr>name = ''sec'', role = ''engineer'', system_prompt = [],
                    memory = [JInt 1], allowed_tools = None\<rparr>)],
                shared_context = [(''k'', JInt 2)], history = [JInt 3]\<rparr>,
       max_concurrent = 5, cwd = ''.'', output_format = ''json''\<rparr> ''ghost'' ''scan''
     = Inr (not_found ''ghost'',
      \<lparr>state = \<lparr>agents = [(''sec'', \<lparr>name = ''sec'', role = ''engineer'', system_prompt = [],
                    memory = [JInt 1], allowed_tools = None\<rparr>)],
                shared_context = [(''k'', JInt 2)], history = [JInt 3]\<rparr>,
       max_concurrent = 5, cwd = ''.'', output_format = ''json''\<rparr>)"
proof -
  have h: "\<not> dict_has (agents (state
      \<lparr>state = \<lparr>agents = [(''sec'', \<lparr>name = ''sec'', role = ''engineer'', system_prompt = [],
                    memory = [JInt 1], allowed_tools = None\<rparr>)],
                shared_context = [(''k'', JInt 2)], history = [JInt 3]\<rparr>,
       max_concurrent = 5, cwd = ''.'', output_format = ''json''\<rparr>)) ''ghost''"
    by (simp add: dict_has_def dict_get_def)
  show ?thesis
    using h invoke_unregistered_no_effect [OF h,
        of "\<lparr>dumps = (\<lambda>v. []), loads = (\<lambda>t. None)\<rparr>"
        "\<lparr>run_process = (\<lambda>argv dir. \<lparr>returncode = 0, stdout = [], stderr = []\<rparr>),
         clock = (\<lambda>k. [])\<rparr>" "''scan''"]
    by auto
qed


section \<open>Concurrent invocations\<close>










section \<open>Fan-out\<close>










section \<open>Pipeline\<close>








section \<open>Hierarchical planning\<close>








section \<open>Persistence\<close>








end
